theory Spec2Isabelle
  imports Complex_Main "HOL-Library.Monad_Syntax"
begin

section \<open>Data model\<close>

text \<open>
  Coordinates are JavaScript numbers in the source. They are modelled as exact rationals
  (every finite double is one); rounding, NaN and the infinities are outside the model.
\<close>

record xy =
  x_coord :: rat
  y_coord :: rat

datatype jsval = JStr string | JNum rat | JBool bool | JArr "jsval list"

datatype extent_val = ExtentParent | ExtentBox xy xy

text \<open>
  The fields of a React Flow \<^verbatim>\<open>Node\<close> that the canvas code reads or writes. An optional
  field is an \<open>option\<close>; \<open>data\<close> is the open attribute object; \<open>style_width\<close> and
  \<open>style_height\<close> are \<^verbatim>\<open>style.width\<close> and \<^verbatim>\<open>style.height\<close>.
\<close>

record node =
  id_node :: string
  type :: "string option"
  position :: xy
  positionAbsolute :: "xy option"
  data :: "string \<rightharpoonup> jsval"
  parentNode :: "string option"
  width :: "rat option"
  height :: "rat option"
  zIndex :: "rat option"
  style_width :: "rat option"
  style_height :: "rat option"
  extent :: "extent_val option"
  dragging :: "bool option"

section \<open>Placement rules (features/canvas/utils/validation.ts)\<close>

record rule =
  allowedParents :: "string list"
  mustHaveParent :: bool
  exceptions :: "string list option"
  errorMessage :: string

definition RULES :: "(string \<times> rule) list" where
  "RULES =
    [(''subnet'', \<lparr>allowedParents = [''vpc''], mustHaveParent = True, exceptions = None,
        errorMessage = ''Subnets must be placed inside a VPC.''\<rparr>),
     (''service'', \<lparr>allowedParents = [''subnet''], mustHaveParent = True,
        exceptions = Some [''s3''],
        errorMessage = ''Compute resources must be placed inside a Subnet.''\<rparr>),
     (''vpc'', \<lparr>allowedParents = [], mustHaveParent = False, exceptions = None,
        errorMessage = ''''\<rparr>),
     (''eks'', \<lparr>allowedParents = [''subnet''], mustHaveParent = True, exceptions = None,
        errorMessage = ''EKS clusters must be placed inside a Subnet.''\<rparr>),
     (''eks-node-group'', \<lparr>allowedParents = [''eks''], mustHaveParent = True,
        exceptions = None,
        errorMessage = ''Node groups must be placed inside an EKS cluster.''\<rparr>)]"

text \<open>
  \<^verbatim>\<open>RULES\<close> is an object literal and \<^verbatim>\<open>RULES[nodeType]\<close> is a JavaScript property read:
  a key that is not an own property is looked up on \<^verbatim>\<open>Object.prototype\<close>, whose members
  (functions, and the prototype object itself for \<^verbatim>\<open>__proto__\<close>) are truthy and carry none
  of the rule fields.
\<close>

definition object_prototype_names :: "string list" where
  "object_prototype_names =
    [''constructor'', ''hasOwnProperty'', ''isPrototypeOf'', ''propertyIsEnumerable'',
     ''toLocaleString'', ''toString'', ''valueOf'', ''__proto__'', ''__defineGetter__'',
     ''__defineSetter__'', ''__lookupGetter__'', ''__lookupSetter__'']"

datatype rules_entry = OwnRule rule | InheritedMember

definition RULES_get :: "string \<Rightarrow> rules_entry option" where
  "RULES_get k =
    (case map_of RULES k of
       Some r \<Rightarrow> Some (OwnRule r)
     | None \<Rightarrow> if k \<in> set object_prototype_names then Some InheritedMember else None)"

datatype js_error = TypeError

datatype verdict = Valid | Invalid string

text \<open>\<^verbatim>\<open>node.type || node.data.type\<close>: an absent or empty \<open>type\<close> is falsy.\<close>

definition type_or :: "node \<Rightarrow> string \<Rightarrow> string" where
  "type_or n dt = (case type n of None \<Rightarrow> dt | Some t \<Rightarrow> if t = [] then dt else t)"

definition nodeType :: "node \<Rightarrow> string" where
  "nodeType n =
    (if data n ''type'' = Some (JStr ''vpc'') then type_or n ''vpc''
     else if data n ''type'' = Some (JStr ''subnet'') then type_or n ''subnet''
     else if data n ''type'' = Some (JStr ''eks'') then ''eks''
     else if data n ''type'' = Some (JStr ''eks-node-group'') then ''eks-node-group''
     else ''service'')"

definition is_exception :: "rule \<Rightarrow> jsval option \<Rightarrow> bool" where
  "is_exception r specificType =
    (case exceptions r of
       None \<Rightarrow> False
     | Some ex \<Rightarrow> specificType \<in> set (map (\<lambda>e. Some (JStr e)) ex))"

definition validatePlacement :: "node \<Rightarrow> node option \<Rightarrow> js_error + verdict" where
  "validatePlacement n parent =
    (case RULES_get (nodeType n) of
       None \<Rightarrow> Inr Valid
     | Some InheritedMember \<Rightarrow>
         (case parent of None \<Rightarrow> Inr Valid | Some p \<Rightarrow> Inl TypeError)
     | Some (OwnRule r) \<Rightarrow>
         if is_exception r (data n ''type'') then Inr Valid
         else if mustHaveParent r \<and> parent = None then Inr (Invalid (errorMessage r))
         else (case parent of
                 None \<Rightarrow> Inr Valid
               | Some p \<Rightarrow>
                   if type p \<notin> set (map Some (allowedParents r))
                   then Inr (Invalid (errorMessage r))
                   else Inr Valid))"

section \<open>Graph store (app/store.ts)\<close>

record edge =
  id_edge :: string
  source :: string
  target :: string

text \<open>
  Arrays are never updated in place by the store, so an array is its list of elements
  together with the identity of the array object: \<open>nodes_ref\<close> names the array that
  \<open>nodes\<close> currently is, and \<open>next_ref\<close> is the first identity not yet allocated.
  \<^verbatim>\<open>Array.prototype.map\<close> and an array literal with a spread always allocate.
\<close>

record rfstate =
  nodes :: "node list"
  nodes_ref :: nat
  next_ref :: nat
  edges :: "edge list"
  totalCost :: rat
  costBreakdown :: "string \<rightharpoonup> rat"

definition set_nodes :: "rfstate \<Rightarrow> node list \<Rightarrow> rfstate" where
  "set_nodes s ns = s\<lparr>nodes := ns, nodes_ref := next_ref s, next_ref := Suc (next_ref s)\<rparr>"

text \<open>
  A \<^verbatim>\<open>Partial<Node>\<close> payload is the list of its top-level keys with their values, in
  the order of the object literal; a key whose value is \<^verbatim>\<open>undefined\<close> is present and
  carries \<open>None\<close>.
\<close>

datatype node_field =
    F_id string
  | F_type "string option"
  | F_position xy
  | F_positionAbsolute "xy option"
  | F_data "string \<rightharpoonup> jsval"
  | F_parentNode "string option"
  | F_width "rat option"
  | F_height "rat option"
  | F_zIndex "rat option"
  | F_style "rat option" "rat option"
  | F_extent "extent_val option"
  | F_dragging "bool option"

fun assign :: "node_field \<Rightarrow> node \<Rightarrow> node" where
  "assign (F_id v) n = n\<lparr>id_node := v\<rparr>"
| "assign (F_type v) n = n\<lparr>type := v\<rparr>"
| "assign (F_position v) n = n\<lparr>position := v\<rparr>"
| "assign (F_positionAbsolute v) n = n\<lparr>positionAbsolute := v\<rparr>"
| "assign (F_data v) n = n\<lparr>data := v\<rparr>"
| "assign (F_parentNode v) n = n\<lparr>parentNode := v\<rparr>"
| "assign (F_width v) n = n\<lparr>width := v\<rparr>"
| "assign (F_height v) n = n\<lparr>height := v\<rparr>"
| "assign (F_zIndex v) n = n\<lparr>zIndex := v\<rparr>"
| "assign (F_style w h) n = n\<lparr>style_width := w, style_height := h\<rparr>"
| "assign (F_extent v) n = n\<lparr>extent := v\<rparr>"
| "assign (F_dragging v) n = n\<lparr>dragging := v\<rparr>"

text \<open>\<^verbatim>\<open>{ ...node, ...payload }\<close>\<close>

definition spread :: "node \<Rightarrow> node_field list \<Rightarrow> node" where
  "spread n payload = fold assign payload n"

definition addNode :: "rfstate \<Rightarrow> node \<Rightarrow> rfstate" where
  "addNode s n = set_nodes s (nodes s @ [n])"

definition updateNodeData :: "rfstate \<Rightarrow> string \<Rightarrow> (string \<rightharpoonup> jsval) \<Rightarrow> rfstate" where
  "updateNodeData s nodeId newData =
    set_nodes s
      (map (\<lambda>n. if id_node n = nodeId then n\<lparr>data := data n ++ newData\<rparr> else n) (nodes s))"

definition updateNode :: "rfstate \<Rightarrow> string \<Rightarrow> node_field list \<Rightarrow> rfstate" where
  "updateNode s nodeId payload =
    set_nodes s (map (\<lambda>n. if id_node n = nodeId then spread n payload else n) (nodes s))"

definition setCosts :: "rfstate \<Rightarrow> rat \<Rightarrow> (string \<rightharpoonup> rat) \<Rightarrow> rfstate" where
  "setCosts s tot breakdown = s\<lparr>totalCost := tot, costBreakdown := breakdown\<rparr>"

text \<open>
  \<^verbatim>\<open>applyNodeChanges\<close> belongs to the React Flow library and is a parameter here; it
  builds its result as a new array.
\<close>

definition onNodesChange ::
  "('c \<Rightarrow> node list \<Rightarrow> node list) \<Rightarrow> 'c \<Rightarrow> rfstate \<Rightarrow> rfstate" where
  "onNodesChange applyNodeChanges changes s = set_nodes s (applyNodeChanges changes (nodes s))"

section \<open>Coordinate resolution (features/canvas/Canvas.tsx)\<close>

definition origin :: xy where
  "origin = \<lparr>x_coord = 0, y_coord = 0\<rparr>"

definition xy_add :: "xy \<Rightarrow> xy \<Rightarrow> xy" where
  "xy_add a b = \<lparr>x_coord = x_coord a + x_coord b, y_coord = y_coord a + y_coord b\<rparr>"

definition xy_sub :: "xy \<Rightarrow> xy \<Rightarrow> xy" where
  "xy_sub a b = \<lparr>x_coord = x_coord a - x_coord b, y_coord = y_coord a - y_coord b\<rparr>"

text \<open>\<^verbatim>\<open>nodes.find(n => n.id === node.parentNode)\<close>\<close>

definition find_parent :: "node list \<Rightarrow> node \<Rightarrow> node option" where
  "find_parent ns n = find (\<lambda>m. Some (id_node m) = parentNode n) ns"

text \<open>
  The recursion follows \<open>parentNode\<close> and has no guard against a cycle, so the function
  is partial: \<open>None\<close> is a call that never returns.
\<close>

partial_function (option) getAbsolutePosition :: "node list \<Rightarrow> node option \<Rightarrow> xy option" where
  "getAbsolutePosition ns nd =
    (case nd of
       None \<Rightarrow> Some origin
     | Some n \<Rightarrow>
         (case positionAbsolute n of
            Some pa \<Rightarrow> Some pa
          | None \<Rightarrow>
              do {
                parentPos \<leftarrow> getAbsolutePosition ns (find_parent ns n);
                Some (xy_add (position n) parentPos)
              }))"

section \<open>Canvas component state and drag handlers (features/canvas/Canvas.tsx)\<close>

record drag_snapshot =
  snap_id :: string
  snap_position :: xy
  snap_parentNode :: "string option"

text \<open>
  \<open>dragRef\<close> is the \<^verbatim>\<open>useRef\<close> cell. \<open>costTimer\<close> is the pending \<^verbatim>\<open>setTimeout\<close> of the
  cost effect with the \<open>nodes\<close> its callback closed over, \<open>effect_ref\<close> the identity of the
  \<open>nodes\<close> array the effect last ran for, and \<open>inflight\<close> the node lists of the
  \<^verbatim>\<open>estimateCosts\<close> calls that have not settled yet.
\<close>

record canvas =
  store :: rfstate
  dragRef :: "drag_snapshot option"
  costTimer :: "node list option"
  effect_ref :: "nat option"
  inflight :: "node list list"

datatype outcome = Ignored | Alerted string | Done | Raised js_error

text \<open>\<^verbatim>\<open>a || d\<close> on an optional number: absent and \<open>0\<close> are falsy.\<close>

definition num_or :: "rat option \<Rightarrow> rat \<Rightarrow> rat" where
  "num_or v d = (case v of None \<Rightarrow> d | Some w \<Rightarrow> if w = 0 then d else w)"

text \<open>Truthiness of an optional string: absent and the empty string are falsy.\<close>

definition truthy :: "string option \<Rightarrow> bool" where
  "truthy v = (case v of None \<Rightarrow> False | Some t \<Rightarrow> t \<noteq> [])"

definition is_container :: "node \<Rightarrow> bool" where
  "is_container n = (type n = Some ''vpc'' \<or> type n = Some ''subnet'' \<or> type n = Some ''eks'')"

text \<open>
  \<^verbatim>\<open>.sort((a, b) => (b.zIndex || 0) - (a.zIndex || 0))\<close>: descending in \<open>zIndex\<close>, and
  stable, as \<open>sort_key\<close> is.
\<close>

definition by_zIndex_desc :: "node list \<Rightarrow> node list" where
  "by_zIndex_desc ns = sort_key (\<lambda>n. - num_or (zIndex n) 0) ns"

definition isInside :: "xy \<Rightarrow> xy \<Rightarrow> rat \<Rightarrow> rat \<Rightarrow> bool" where
  "isInside pt pAbs pW pH =
    (x_coord pt \<ge> x_coord pAbs \<and> x_coord pt \<le> x_coord pAbs + pW \<and>
     y_coord pt \<ge> y_coord pAbs \<and> y_coord pt \<le> y_coord pAbs + pH)"

definition onNodeDragStart :: "canvas \<Rightarrow> node \<Rightarrow> canvas" where
  "onNodeDragStart c n =
    c\<lparr>dragRef := Some \<lparr>snap_id = id_node n, snap_position = position n,
                         snap_parentNode = parentNode n\<rparr>\<rparr>"

text \<open>The four pairings tested inside the loop of \<^verbatim>\<open>onNodeDragStop\<close>.\<close>

definition drag_pair :: "node \<Rightarrow> node \<Rightarrow> bool" where
  "drag_pair n p =
    ((type n = Some ''service'' \<and> type p = Some ''subnet'') \<or>
     (type n = Some ''subnet'' \<and> type p = Some ''vpc'') \<or>
     (type n = Some ''eks'' \<and> type p = Some ''subnet'') \<or>
     (type n = Some ''eks-node-group'' \<and> type p = Some ''eks''))"

text \<open>
  The \<^verbatim>\<open>for\<close> loop over \<open>potentialParents\<close>: \<open>Some None\<close> is a finished loop that left
  \<open>newParent\<close> undefined; \<open>None\<close> is a loop that never finishes.
\<close>

fun findNewParent :: "node list \<Rightarrow> node \<Rightarrow> xy \<Rightarrow> node list \<Rightarrow> node option option" where
  "findNewParent ns n nodeCenter [] = Some None"
| "findNewParent ns n nodeCenter (p # ps) =
    (case getAbsolutePosition ns (Some p) of
       None \<Rightarrow> None
     | Some pAbs \<Rightarrow>
         if isInside nodeCenter pAbs (num_or (width p) (num_or (style_width p) 0))
              (num_or (height p) (num_or (style_height p) 0)) \<and> drag_pair n p
         then Some (Some p)
         else findNewParent ns n nodeCenter ps)"

definition nodeCenter_of :: "node \<Rightarrow> xy \<Rightarrow> xy" where
  "nodeCenter_of n nodeAbs =
    \<lparr>x_coord = x_coord nodeAbs + num_or (width n) 0 / 2,
     y_coord = y_coord nodeAbs + num_or (height n) 0 / 2\<rparr>"

definition potentialParents_drag :: "node list \<Rightarrow> node \<Rightarrow> node list" where
  "potentialParents_drag ns n =
    by_zIndex_desc (filter (\<lambda>m. is_container m \<and> id_node m \<noteq> id_node n) ns)"

text \<open>The revert branch: only with a snapshot taken for this very node.\<close>

definition revert :: "canvas \<Rightarrow> node \<Rightarrow> canvas" where
  "revert c n =
    (case dragRef c of
       None \<Rightarrow> c
     | Some d \<Rightarrow>
         if snap_id d = id_node n
         then c\<lparr>store := updateNode (store c) (id_node n)
                  [F_position (snap_position d), F_parentNode (snap_parentNode d),
                   F_extent None]\<rparr>
         else c)"

text \<open>The part of \<^verbatim>\<open>onNodeDragStop\<close> after a passed validation.\<close>

definition commit_drag :: "canvas \<Rightarrow> node \<Rightarrow> xy \<Rightarrow> node option \<Rightarrow> canvas option" where
  "commit_drag c n nodeAbs newParent =
    (case newParent of
       Some p \<Rightarrow>
         if parentNode n \<noteq> Some (id_node p)
         then do {
           pAbs \<leftarrow> getAbsolutePosition (nodes (store c)) (Some p);
           Some (c\<lparr>store := updateNode (store c) (id_node n)
                    [F_parentNode (Some (id_node p)), F_position (xy_sub nodeAbs pAbs)],
                  dragRef := None\<rparr>)
         }
         else Some (c\<lparr>dragRef := None\<rparr>)
     | None \<Rightarrow>
         if truthy (parentNode n)
         then Some (c\<lparr>store := updateNode (store c) (id_node n)
                     [F_parentNode None, F_position nodeAbs],
                   dragRef := None\<rparr>)
         else Some (c\<lparr>dragRef := None\<rparr>))"

definition onNodeDragStop :: "canvas \<Rightarrow> node \<Rightarrow> (outcome \<times> canvas) option" where
  "onNodeDragStop c n =
    (if type n = Some ''vpc'' then Some (Ignored, c)
     else do {
       nodeAbs \<leftarrow> getAbsolutePosition (nodes (store c)) (Some n);
       newParent \<leftarrow> findNewParent (nodes (store c)) n (nodeCenter_of n nodeAbs)
                      (potentialParents_drag (nodes (store c)) n);
       (case validatePlacement n newParent of
          Inl e \<Rightarrow> Some (Raised e, c)
        | Inr (Invalid msg) \<Rightarrow> Some (Alerted (''Invalid Move: '' @ msg), revert c n)
        | Inr Valid \<Rightarrow>
            do {
              c' \<leftarrow> commit_drag c n nodeAbs newParent;
              Some (Done, c')
            })
     })"

section \<open>Palette drop (features/canvas/Canvas.tsx)\<close>

definition isContainer :: "string \<Rightarrow> bool" where
  "isContainer ty = (ty = ''vpc'' \<or> ty = ''subnet'' \<or> ty = ''eks'')"

text \<open>\<^verbatim>\<open>Z_LAYERS\<close>: vpc 10, subnet 20, eks 25, resource 30.\<close>

definition drop_zIndex :: "string \<Rightarrow> rat" where
  "drop_zIndex ty =
    (if ty = ''vpc'' then 10 else if ty = ''subnet'' then 20 else if ty = ''eks'' then 25
     else 30)"

definition drop_width :: "string \<Rightarrow> rat option" where
  "drop_width ty =
    (if ty = ''vpc'' then Some 500 else if ty = ''subnet'' then Some 250
     else if ty = ''eks'' then Some 300 else None)"

definition drop_height :: "string \<Rightarrow> rat option" where
  "drop_height ty =
    (if ty = ''vpc'' then Some 400 else if ty = ''subnet'' then Some 180
     else if ty = ''eks'' then Some 200 else None)"

definition defaultData :: "string \<Rightarrow> (string \<rightharpoonup> jsval)" where
  "defaultData ty =
    (let base = [''label'' \<mapsto> JStr (''New '' @ ty), ''type'' \<mapsto> JStr ty] in
     if ty = ''vpc'' then
       base(''cidr'' \<mapsto> JStr ''10.0.0.0/16'', ''enableDnsHostnames'' \<mapsto> JBool True)
     else if ty = ''subnet'' then
       base(''cidr'' \<mapsto> JStr ''10.0.1.0/24'', ''az'' \<mapsto> JStr ''us-east-1a'',
            ''mapPublicIp'' \<mapsto> JBool True)
     else if ty = ''ec2'' then
       base(''instanceType'' \<mapsto> JStr ''t3.micro'', ''ami'' \<mapsto> JStr ''ubuntu-22.04'')
     else if ty = ''rds'' then
       base(''label'' \<mapsto> JStr ''my-db'', ''engine'' \<mapsto> JStr ''mysql'',
            ''instanceClass'' \<mapsto> JStr ''db.t3.micro'', ''allocatedStorage'' \<mapsto> JNum 20,
            ''username'' \<mapsto> JStr ''admin'')
     else if ty = ''s3'' then
       base(''label'' \<mapsto> JStr ''my-app-bucket'', ''versioning'' \<mapsto> JBool False,
            ''forceDestroy'' \<mapsto> JBool False)
     else if ty = ''eks'' then
       base(''label'' \<mapsto> JStr ''my-eks-cluster'', ''version'' \<mapsto> JStr ''1.29'')
     else if ty = ''eks-node-group'' then
       base(''label'' \<mapsto> JStr ''workers'', ''instanceTypes'' \<mapsto> JArr [JStr ''t3.medium''],
            ''desiredSize'' \<mapsto> JNum 2, ''minSize'' \<mapsto> JNum 1, ''maxSize'' \<mapsto> JNum 4)
     else base)"

text \<open>
  The node as created before hit-testing. \<open>stamp\<close> is the decimal text of
  \<^verbatim>\<open>Date.now()\<close> and \<open>mousePos\<close> the result of \<^verbatim>\<open>screenToFlowPosition\<close>.
\<close>

definition newNode_of :: "string \<Rightarrow> xy \<Rightarrow> string \<Rightarrow> node" where
  "newNode_of ty mousePos stamp =
    \<lparr>id_node = ty @ ''-'' @ stamp,
     type = Some (if isContainer ty then ty else ''service''),
     position = mousePos,
     positionAbsolute = None,
     data = defaultData ty,
     parentNode = None,
     width = None,
     height = None,
     zIndex = Some (drop_zIndex ty),
     style_width = drop_width ty,
     style_height = drop_height ty,
     extent = None,
     dragging = None\<rparr>"

definition potentialParents_drop :: "node list \<Rightarrow> node list" where
  "potentialParents_drop ns = by_zIndex_desc (filter is_container ns)"

definition drop_pair :: "string \<Rightarrow> node \<Rightarrow> bool" where
  "drop_pair ty p =
    ((ty = ''subnet'' \<and> type p = Some ''vpc'') \<or>
     (ty = ''eks'' \<and> type p = Some ''subnet'') \<or>
     (ty = ''eks-node-group'' \<and> type p = Some ''eks'') \<or>
     (\<not> isContainer ty \<and> type p = Some ''subnet''))"

text \<open>The \<^verbatim>\<open>for\<close> loop of \<^verbatim>\<open>onDrop\<close>; it returns the node with the parent it found.\<close>

fun attachParent :: "node list \<Rightarrow> string \<Rightarrow> xy \<Rightarrow> node \<Rightarrow> node list \<Rightarrow> node option" where
  "attachParent ns ty mousePos newNode [] = Some newNode"
| "attachParent ns ty mousePos newNode (p # ps) =
    (case getAbsolutePosition ns (Some p) of
       None \<Rightarrow> None
     | Some pAbs \<Rightarrow>
         if isInside mousePos pAbs (num_or (width p) (num_or (style_width p) 200))
              (num_or (height p) (num_or (style_height p) 150)) \<and> drop_pair ty p
         then Some (newNode\<lparr>parentNode := Some (id_node p), extent := None,
                            position := xy_sub mousePos pAbs\<rparr>)
         else attachParent ns ty mousePos newNode ps)"

text \<open>
  The test of one iteration of that loop: the container's rectangle, at its resolved
  position, contains the drop point and the pairing is one of the four.
\<close>

definition drop_hit :: "node list \<Rightarrow> string \<Rightarrow> xy \<Rightarrow> node \<Rightarrow> bool" where
  "drop_hit ns ty mousePos p =
    (case getAbsolutePosition ns (Some p) of
       None \<Rightarrow> False
     | Some pAbs \<Rightarrow>
         isInside mousePos pAbs (num_or (width p) (num_or (style_width p) 200))
           (num_or (height p) (num_or (style_height p) 150)) \<and> drop_pair ty p)"

text \<open>
  \<^verbatim>\<open>newNode.parentNode ? nodes.find(n => n.id === newNode.parentNode) : undefined\<close>
\<close>

definition drop_parent :: "node list \<Rightarrow> node \<Rightarrow> node option" where
  "drop_parent ns newNode = (if truthy (parentNode newNode) then find_parent ns newNode else None)"

definition onDrop :: "canvas \<Rightarrow> string \<Rightarrow> xy \<Rightarrow> string \<Rightarrow> (outcome \<times> canvas) option" where
  "onDrop c ty mousePos stamp =
    (if ty = [] then Some (Ignored, c)
     else do {
       newNode \<leftarrow> attachParent (nodes (store c)) ty mousePos (newNode_of ty mousePos stamp)
                    (potentialParents_drop (nodes (store c)));
       (case validatePlacement newNode (drop_parent (nodes (store c)) newNode) of
          Inl e \<Rightarrow> Some (Raised e, c)
        | Inr (Invalid msg) \<Rightarrow> Some (Alerted (''Cannot create resource here: '' @ msg), c)
        | Inr Valid \<Rightarrow> Some (Done, c\<lparr>store := addNode (store c) newNode\<rparr>))
     })"

section \<open>Cost estimation effect (features/canvas/Canvas.tsx)\<close>

text \<open>
  The effect depends on \<open>nodes\<close>: after a render it runs when the \<open>nodes\<close> array is not
  the one it last ran for. Its cleanup clears the pending timeout and its body sets a new
  one, whose callback closes over the rendered \<open>nodes\<close>.
\<close>

definition costEffect :: "canvas \<Rightarrow> canvas" where
  "costEffect c =
    (if effect_ref c = Some (nodes_ref (store c)) then c
     else c\<lparr>costTimer := Some (nodes (store c)), effect_ref := Some (nodes_ref (store c))\<rparr>)"

text \<open>The timeout callback, run when the 500 ms have passed without a cleanup.\<close>

definition timeoutFires :: "canvas \<Rightarrow> canvas" where
  "timeoutFires c =
    (case costTimer c of
       None \<Rightarrow> c
     | Some ns \<Rightarrow>
         if length ns = 0
         then c\<lparr>store := setCosts (store c) 0 Map.empty, costTimer := None\<rparr>
         else c\<lparr>costTimer := None, inflight := inflight c @ [ns]\<rparr>)"

text \<open>
  An \<^verbatim>\<open>estimateCosts\<close> call settles: \<open>Some (t, b)\<close> is the response, \<open>None\<close> a rejected
  promise, which is logged only.
\<close>

definition estimateSettles :: "canvas \<Rightarrow> nat \<Rightarrow> (rat \<times> (string \<rightharpoonup> rat)) option \<Rightarrow> canvas" where
  "estimateSettles c i response =
    (if i < length (inflight c)
     then (case response of
             None \<Rightarrow> c\<lparr>inflight := take i (inflight c) @ drop (Suc i) (inflight c)\<rparr>
           | Some (t, b) \<Rightarrow>
               c\<lparr>store := setCosts (store c) t b,
                 inflight := take i (inflight c) @ drop (Suc i) (inflight c)\<rparr>)
     else c)"

text \<open>Calls settling one after the other, each given by its place and its response.\<close>

definition settles ::
  "canvas \<Rightarrow> (nat \<times> (rat \<times> (string \<rightharpoonup> rat)) option) list \<Rightarrow> canvas" where
  "settles c evs = fold (\<lambda>(i, response) c'. estimateSettles c' i response) evs c"

text \<open>A store mutation followed by the render it causes.\<close>

definition mutate :: "(rfstate \<Rightarrow> rfstate) \<Rightarrow> canvas \<Rightarrow> canvas" where
  "mutate f c = costEffect (c\<lparr>store := f (store c)\<rparr>)"

section \<open>Resolvable parent chains\<close>

text \<open>
  A chain is resolvable when it reaches a node without parent in finitely many steps,
  each \<open>parentNode\<close> naming a node of the store; a cyclic chain never does.
\<close>

inductive resolvable :: "node list \<Rightarrow> node \<Rightarrow> bool" for ns :: "node list" where
  root: "parentNode n = None \<Longrightarrow> resolvable ns n"
| step: "find_parent ns n = Some p \<Longrightarrow> resolvable ns p \<Longrightarrow> resolvable ns n"

code_pred resolvable .

text \<open>
  The store never hands out the identity of an array that is still to be allocated.
\<close>

definition refs_ok :: "rfstate \<Rightarrow> bool" where
  "refs_ok s = (nodes_ref s < next_ref s)"

section \<open>Drag gestures and an example diagram\<close>

text \<open>
  React Flow reports a drag movement as a position change with the fields \<^verbatim>\<open>position\<close>,
  \<^verbatim>\<open>positionAbsolute\<close> and \<^verbatim>\<open>dragging\<close>, each optional; \<^verbatim>\<open>applyNodeChanges\<close> writes
  every field the change carries into the node with the change's id.
\<close>

record position_change =
  change_id :: string
  change_position :: "xy option"
  change_positionAbsolute :: "xy option"
  change_dragging :: "bool option"

definition moveNode :: "position_change \<Rightarrow> node list \<Rightarrow> node list" where
  "moveNode ch ns =
    map (\<lambda>n. if id_node n = change_id ch
             then n\<lparr>position := (case change_position ch of None \<Rightarrow> position n | Some p \<Rightarrow> p),
                    positionAbsolute :=
                      (case change_positionAbsolute ch of
                         None \<Rightarrow> positionAbsolute n | Some pa \<Rightarrow> Some pa),
                    dragging :=
                      (case change_dragging ch of None \<Rightarrow> dragging n | Some d \<Rightarrow> Some d)\<rparr>
             else n) ns"

text \<open>
  A complete drag of the stored node \<open>n\<close> to the relative position \<open>q\<close>, which is the
  absolute position \<open>qa\<close>. React Flow calls \<^verbatim>\<open>onNodeDragStart\<close> with the node, passes the
  movement to \<^verbatim>\<open>onNodesChange\<close> as a change with the new \<open>position\<close>, the new
  \<open>positionAbsolute\<close> and \<^verbatim>\<open>dragging: true\<close>, ends the drag with a change that carries
  \<^verbatim>\<open>dragging: false\<close> only, and calls \<^verbatim>\<open>onNodeDragStop\<close> with the node at its new
  \<open>position\<close> and \<open>positionAbsolute\<close>.
\<close>

definition drag :: "canvas \<Rightarrow> node \<Rightarrow> xy \<Rightarrow> xy \<Rightarrow> (outcome \<times> canvas) option" where
  "drag c n q qa =
    onNodeDragStop
      (mutate (onNodesChange moveNode
                 \<lparr>change_id = id_node n, change_position = None,
                  change_positionAbsolute = None, change_dragging = Some False\<rparr>)
         (mutate (onNodesChange moveNode
                    \<lparr>change_id = id_node n, change_position = Some q,
                     change_positionAbsolute = Some qa, change_dragging = Some True\<rparr>)
            (onNodeDragStart c n)))
      (n\<lparr>position := q, positionAbsolute := Some qa\<rparr>)"

text \<open>A remove change: \<^verbatim>\<open>applyNodeChanges\<close> drops the node with the change's id.\<close>

definition removeNode :: "string \<Rightarrow> node list \<Rightarrow> node list" where
  "removeNode i ns = filter (\<lambda>n. id_node n \<noteq> i) ns"

text \<open>What a handler call shows: its outcome and the nodes of the store it leaves.\<close>

definition result_nodes :: "(outcome \<times> canvas) option \<Rightarrow> (outcome \<times> node list) option" where
  "result_nodes res = map_option (\<lambda>(out, c). (out, nodes (store c))) res"

definition pt :: "rat \<Rightarrow> rat \<Rightarrow> xy" where
  "pt a b = \<lparr>x_coord = a, y_coord = b\<rparr>"

definition placed ::
  "string \<Rightarrow> string \<Rightarrow> string \<Rightarrow> string option \<Rightarrow> xy \<Rightarrow> rat \<Rightarrow> rat \<Rightarrow> rat \<Rightarrow> node" where
  "placed i t dt par p w h z =
    \<lparr>id_node = i, type = Some t, position = p, positionAbsolute = None,
     data = [''type'' \<mapsto> JStr dt], parentNode = par, width = Some w, height = Some h,
     zIndex = Some z, style_width = None, style_height = None, extent = None,
     dragging = None\<rparr>"

text \<open>
  A VPC with two subnets side by side and an EC2 instance in the first subnet; \<open>ex_edge\<close>
  is an instance whose top-left corner is inside the first subnet and whose center is not.
\<close>

definition ex_vpc :: node where
  "ex_vpc = placed ''vpc-1'' ''vpc'' ''vpc'' None (pt 0 0) 500 400 10"

definition ex_subnet1 :: node where
  "ex_subnet1 = placed ''subnet-1'' ''subnet'' ''subnet'' (Some ''vpc-1'') (pt 20 40) 250 180 20"

definition ex_subnet2 :: node where
  "ex_subnet2 = placed ''subnet-2'' ''subnet'' ''subnet'' (Some ''vpc-1'') (pt 300 40) 180 180 20"

definition ex_ec2 :: node where
  "ex_ec2 = placed ''ec2-1'' ''service'' ''ec2'' (Some ''subnet-1'') (pt 10 10) 48 48 30"

definition ex_edge :: node where
  "ex_edge = placed ''ec2-2'' ''service'' ''ec2'' (Some ''subnet-1'') (pt 240 10) 48 48 30"

definition ex_bucket :: node where
  "ex_bucket = placed ''s3-1'' ''service'' ''s3'' None (pt 600 10) 48 48 30"

definition diagram :: "node list \<Rightarrow> canvas" where
  "diagram ns =
    \<lparr>store = \<lparr>nodes = ns, nodes_ref = 0, next_ref = 1, edges = [], totalCost = 0,
               costBreakdown = Map.empty\<rparr>,
     dragRef = None, costTimer = None, effect_ref = Some 0, inflight = []\<rparr>"

text \<open>The diagram with one bucket and a cost estimate on display.\<close>

definition priced :: canvas where
  "priced = (diagram [ex_bucket])\<lparr>store := setCosts (store (diagram [ex_bucket])) 23
               [''s3-1'' \<mapsto> 23]\<rparr>"

section \<open>Evaluation lemmas\<close>

lemma getAbsolutePosition_None [simp]: "getAbsolutePosition ns None = Some origin"
  by (subst getAbsolutePosition.simps) simp

lemma getAbsolutePosition_cached:
  "positionAbsolute n = Some pa \<Longrightarrow> getAbsolutePosition ns (Some n) = Some pa"
  by (subst getAbsolutePosition.simps) simp

lemma getAbsolutePosition_walk:
  "positionAbsolute n = None \<Longrightarrow>
     getAbsolutePosition ns (Some n) =
       getAbsolutePosition ns (find_parent ns n) \<bind>
         (\<lambda>parentPos. Some (xy_add (position n) parentPos))"
  by (subst getAbsolutePosition.simps) simp

lemma find_parent_root: "parentNode n = None \<Longrightarrow> find_parent ns n = None"
  by (simp add: find_parent_def find_None_iff)

lemma xy_add_origin [simp]: "xy_add p origin = p"
  by (simp add: xy_add_def origin_def)

lemma xy_sub_add [simp]: "xy_sub (xy_add r pa) pa = r"
  by (simp add: xy_add_def xy_sub_def)

lemmas ex_defs =
  diagram_def ex_vpc_def ex_subnet1_def ex_subnet2_def ex_ec2_def ex_edge_def ex_bucket_def
  placed_def pt_def priced_def

lemmas rule_defs =
  validatePlacement_def RULES_get_def RULES_def is_exception_def nodeType_def type_or_def
  object_prototype_names_def

lemmas eval_defs =
  getAbsolutePosition_cached getAbsolutePosition_walk find_parent_def xy_add_def xy_sub_def
  origin_def potentialParents_drag_def by_zIndex_desc_def is_container_def num_or_def
  isInside_def drag_pair_def nodeCenter_of_def revert_def commit_drag_def truthy_def
  updateNode_def set_nodes_def spread_def onNodeDragStart_def mutate_def costEffect_def
  onNodesChange_def moveNode_def drag_def removeNode_def result_nodes_def

lemmas walk_defs =
  getAbsolutePosition_cached getAbsolutePosition_walk find_parent_def xy_add_def xy_sub_def
  origin_def potentialParents_drag_def by_zIndex_desc_def is_container_def num_or_def
  isInside_def drag_pair_def nodeCenter_of_def truthy_def

section \<open>Placement rules\<close>

text \<open>
  C2 (as amended). For a child whose rule key is in the table and a candidate parent
  whose type is not among the rule's allowed parents, the check returns invalid with the
  rule's message, unless the child's \<^verbatim>\<open>data.type\<close> is in the rule's exception list; an
  exempt child (a service of kind s3, and nothing else) is valid under that parent too.
\<close>

theorem wrong_parent_invalid_unless_exempt:
  assumes "map_of RULES (nodeType n) = Some r"
      and "type p \<notin> set (map Some (allowedParents r))"
  shows "validatePlacement n (Some p) =
           (if nodeType n = ''service'' \<and> data n ''type'' = Some (JStr ''s3'')
            then Inr Valid else Inr (Invalid (errorMessage r)))"
proof -
  have "is_exception r (data n ''type'') =
          (nodeType n = ''service'' \<and> data n ''type'' = Some (JStr ''s3''))"
    using assms(1) by (auto simp: RULES_def is_exception_def split: if_splits)
  with assms show ?thesis
    by (simp add: validatePlacement_def RULES_get_def)
qed

theorem wrong_parent_invalid_unless_exempt_witness:
  "validatePlacement ex_ec2 (Some ex_vpc) =
     Inr (Invalid ''Compute resources must be placed inside a Subnet.'')"
proof -
  have k: "nodeType ex_ec2 = ''service''"
    by (simp add: nodeType_def ex_defs)
  have r: "map_of RULES (nodeType ex_ec2) =
      Some \<lparr>allowedParents = [''subnet''], mustHaveParent = True, exceptions = Some [''s3''],
            errorMessage = ''Compute resources must be placed inside a Subnet.''\<rparr>"
    by (simp add: k RULES_def)
  have p: "type ex_vpc \<notin> set (map Some (allowedParents
      \<lparr>allowedParents = [''subnet''], mustHaveParent = True, exceptions = Some [''s3''],
       errorMessage = ''Compute resources must be placed inside a Subnet.''\<rparr>))"
    by (simp add: ex_defs)
  have d: "data ex_ec2 ''type'' \<noteq> Some (JStr ''s3'')"
    by (simp add: ex_defs)
  show ?thesis
    using wrong_parent_invalid_unless_exempt [OF r p] d by simp
qed

text \<open>
  C2, counterexample. The bucket is a service of kind s3, its candidate parent is a VPC,
  which is not the subnet the service rule requires, and the check returns valid.
\<close>

theorem exempt_kind_valid_in_wrong_parent:
  "nodeType ex_bucket = ''service'' \<and> type ex_vpc = Some ''vpc'' \<and>
   validatePlacement ex_bucket (Some ex_vpc) = Inr Valid"
  by (simp add: rule_defs ex_defs)



text \<open>
  A rule key is absent from the table only through \<^verbatim>\<open>node.type\<close>, and the loop of
  \<^verbatim>\<open>onNodeDragStop\<close> pairs a node with a container only for the types service, subnet,
  eks and eks-node-group, whose keys are in the table.
\<close>

lemma absent_key_unpaired:
  assumes "map_of RULES (nodeType n) = None"
  shows "\<not> drag_pair n p"
proof
  assume "drag_pair n p"
  then consider "type n = Some ''service''" | "type n = Some ''subnet''"
    | "type n = Some ''eks''" | "type n = Some ''eks-node-group''"
    by (auto simp: drag_pair_def)
  then have "map_of RULES (nodeType n) \<noteq> None"
    by cases (simp_all add: nodeType_def type_or_def RULES_def)
  with assms show False by simp
qed

lemma findNewParent_hit:
  "findNewParent ns n ctr ps = Some (Some p) \<Longrightarrow> drag_pair n p \<and> p \<in> set ps"
  by (induction ps) (auto split: option.splits if_splits)





text \<open>
  A direct call with a key that names a member of \<^verbatim>\<open>Object.prototype\<close> and with a
  candidate parent raises: the lookup finds \<^verbatim>\<open>Object.prototype.constructor\<close>, the
  fail-open return is skipped, and \<^verbatim>\<open>rule.allowedParents.includes\<close> is a read on
  \<^verbatim>\<open>undefined\<close>. No handler makes this call, as \<open>drag_stop_never_raises\<close> and
  \<open>drop_never_raises\<close> below show.
\<close>

lemma inherited_key_direct_call:
  "nodeType (ex_vpc\<lparr>type := Some ''constructor''\<rparr>) = ''constructor'' \<and>
   map_of RULES ''constructor'' = None \<and>
   validatePlacement (ex_vpc\<lparr>type := Some ''constructor''\<rparr>) (Some ex_subnet1) = Inl TypeError"
  by (simp add: rule_defs ex_defs)

section \<open>Coordinate resolution\<close>

lemma resolvable_returns:
  "resolvable ns n \<Longrightarrow> \<exists>a. getAbsolutePosition ns (Some n) = Some a"
proof (induction rule: resolvable.induct)
  case (root n)
  show ?case
  proof (cases "positionAbsolute n")
    case None
    with root show ?thesis
      by (simp add: getAbsolutePosition_walk find_parent_root)
  next
    case (Some pa)
    then show ?thesis
      by (simp add: getAbsolutePosition_cached)
  qed
next
  case (step n p)
  show ?case
  proof (cases "positionAbsolute n")
    case None
    with step show ?thesis
      by (auto simp: getAbsolutePosition_walk)
  next
    case (Some pa)
    then show ?thesis
      by (simp add: getAbsolutePosition_cached)
  qed
qed

text \<open>
  C3 (as amended). For a node with a resolvable parent chain the resolver returns. If the
  node carries \<open>positionAbsolute\<close>, that value is the result. Otherwise the result is the
  resolved position of the parent plus the node's relative position, and for a node
  without parent it is the relative position.
\<close>

theorem absolute_is_parent_plus_relative:
  assumes "resolvable ns n"
  shows "case positionAbsolute n of
           Some pa \<Rightarrow> getAbsolutePosition ns (Some n) = Some pa
         | None \<Rightarrow>
             (\<exists>parentPos. getAbsolutePosition ns (find_parent ns n) = Some parentPos \<and>
                getAbsolutePosition ns (Some n) = Some (xy_add (position n) parentPos) \<and>
                (parentNode n = None \<longrightarrow>
                   getAbsolutePosition ns (Some n) = Some (position n)))"
proof (cases "positionAbsolute n")
  case (Some pa)
  then show ?thesis
    by (simp add: getAbsolutePosition_cached)
next
  case None
  from assms obtain a where a: "getAbsolutePosition ns (Some n) = Some a"
    using resolvable_returns by blast
  with None obtain pp where pp: "getAbsolutePosition ns (find_parent ns n) = Some pp"
    by (auto simp: getAbsolutePosition_walk split: bind_splits)
  have "parentNode n = None \<Longrightarrow> pp = origin"
    using pp by (simp add: find_parent_root)
  with None pp show ?thesis
    by (auto simp: getAbsolutePosition_walk)
qed

lemma ex_chain:
  "resolvable [ex_vpc, ex_subnet1, ex_subnet2, ex_ec2] ex_vpc"
  "resolvable [ex_vpc, ex_subnet1, ex_subnet2, ex_ec2] ex_subnet1"
  "resolvable [ex_vpc, ex_subnet1, ex_subnet2, ex_ec2] ex_subnet2"
  "resolvable [ex_vpc, ex_subnet1, ex_subnet2, ex_ec2] ex_ec2"
proof -
  let ?ns = "[ex_vpc, ex_subnet1, ex_subnet2, ex_ec2]"
  show v: "resolvable ?ns ex_vpc"
    by (rule resolvable.root) (simp add: ex_defs)
  have "find_parent ?ns ex_subnet1 = Some ex_vpc"
    by (simp add: find_parent_def ex_defs)
  then show s1: "resolvable ?ns ex_subnet1"
    using v by (rule resolvable.step)
  have "find_parent ?ns ex_subnet2 = Some ex_vpc"
    by (simp add: find_parent_def ex_defs)
  then show "resolvable ?ns ex_subnet2"
    using v by (rule resolvable.step)
  have "find_parent ?ns ex_ec2 = Some ex_subnet1"
    by (simp add: find_parent_def ex_defs)
  then show "resolvable ?ns ex_ec2"
    using s1 by (rule resolvable.step)
qed

theorem absolute_is_parent_plus_relative_witness:
  "getAbsolutePosition [ex_vpc, ex_subnet1, ex_subnet2, ex_ec2] (Some ex_ec2) = Some (pt 30 50) \<and>
   getAbsolutePosition [ex_vpc, ex_subnet1, ex_subnet2, ex_ec2] (Some ex_subnet1) = Some (pt 20 40)"
proof -
  have f: "find_parent [ex_vpc, ex_subnet1, ex_subnet2, ex_ec2] ex_ec2 = Some ex_subnet1"
    by (simp add: find_parent_def ex_defs)
  have s: "getAbsolutePosition [ex_vpc, ex_subnet1, ex_subnet2, ex_ec2] (Some ex_subnet1) =
      Some (pt 20 40)"
    by (simp add: ex_defs eval_defs)
  have n: "positionAbsolute ex_ec2 = None" "position ex_ec2 = pt 10 10"
    by (simp_all add: ex_defs)
  show ?thesis
    using absolute_is_parent_plus_relative [OF ex_chain(4)] f s n
    by (simp add: xy_add_def pt_def)
qed

text \<open>
  C3, counterexample. A node without parent whose \<open>positionAbsolute\<close> differs from its
  \<open>position\<close>, as a reverted drag leaves it: the chain is resolvable and the resolved
  position is not the relative one.
\<close>

theorem cached_position_wins:
  "resolvable [ex_bucket\<lparr>positionAbsolute := Some (pt 700 90)\<rparr>]
     (ex_bucket\<lparr>positionAbsolute := Some (pt 700 90)\<rparr>) \<and>
   parentNode (ex_bucket\<lparr>positionAbsolute := Some (pt 700 90)\<rparr>) = None \<and>
   getAbsolutePosition [ex_bucket\<lparr>positionAbsolute := Some (pt 700 90)\<rparr>]
     (Some (ex_bucket\<lparr>positionAbsolute := Some (pt 700 90)\<rparr>)) \<noteq>
     Some (position (ex_bucket\<lparr>positionAbsolute := Some (pt 700 90)\<rparr>))"
proof -
  have "resolvable [ex_bucket\<lparr>positionAbsolute := Some (pt 700 90)\<rparr>]
     (ex_bucket\<lparr>positionAbsolute := Some (pt 700 90)\<rparr>)"
    by (rule resolvable.root) (simp add: ex_defs)
  then show ?thesis
    by (simp add: getAbsolutePosition_cached ex_defs)
qed

section \<open>Graph store\<close>

lemma refs_ok_set_nodes: "refs_ok (set_nodes s ns)"
  by (simp add: refs_ok_def set_nodes_def)

lemma nodes_updateNode:
  "nodes (updateNode s i payload) =
     map (\<lambda>m. if id_node m = i then spread m payload else m) (nodes s)"
  by (simp add: updateNode_def set_nodes_def)

text \<open>
  C10. With an id that no node of the store has, \<open>updateNode\<close> and \<open>updateNodeData\<close>
  leave the list of nodes as it is, and the \<open>nodes\<close> array is nevertheless a newly
  allocated one, so its identity differs from the one before the call.
\<close>

theorem absent_id_update_keeps_nodes_changes_array:
  assumes absent: "nodeId \<notin> set (map id_node (nodes s))"
      and refs: "refs_ok s"
  shows "nodes (updateNode s nodeId payload) = nodes s \<and>
         nodes_ref (updateNode s nodeId payload) \<noteq> nodes_ref s \<and>
         nodes (updateNodeData s nodeId newData) = nodes s \<and>
         nodes_ref (updateNodeData s nodeId newData) \<noteq> nodes_ref s"
proof -
  have "map (\<lambda>n. if id_node n = nodeId then g n else n) (nodes s) = nodes s" for g
    using absent by (intro map_idI) auto
  then show ?thesis
    using refs by (simp add: updateNode_def updateNodeData_def set_nodes_def refs_ok_def)
qed

theorem absent_id_update_keeps_nodes_changes_array_witness:
  "nodes (updateNode (store (diagram [ex_vpc, ex_ec2])) ''rds-9'' [F_position (pt 1 2)]) =
     [ex_vpc, ex_ec2] \<and>
   nodes_ref (updateNode (store (diagram [ex_vpc, ex_ec2])) ''rds-9'' [F_position (pt 1 2)]) \<noteq>
     0 \<and>
   nodes (updateNodeData (store (diagram [ex_vpc, ex_ec2])) ''rds-9''
            [''label'' \<mapsto> JStr ''db'']) = [ex_vpc, ex_ec2] \<and>
   nodes_ref (updateNodeData (store (diagram [ex_vpc, ex_ec2])) ''rds-9''
                [''label'' \<mapsto> JStr ''db'']) \<noteq> 0"
proof -
  have absent: "''rds-9'' \<notin> set (map id_node (nodes (store (diagram [ex_vpc, ex_ec2]))))"
    by (simp add: ex_defs)
  have refs: "refs_ok (store (diagram [ex_vpc, ex_ec2]))"
    by (simp add: refs_ok_def diagram_def)
  have r: "nodes_ref (store (diagram [ex_vpc, ex_ec2])) = 0"
    "nodes (store (diagram [ex_vpc, ex_ec2])) = [ex_vpc, ex_ec2]"
    by (simp_all add: diagram_def)
  show ?thesis
    using absent_id_update_keeps_nodes_changes_array
      [OF absent refs, of "[F_position (pt 1 2)]" "[''label'' \<mapsto> JStr ''db'']"]
    by (simp add: r)
qed

section \<open>Drag stop\<close>

text \<open>
  The candidates are tested in descending \<open>zIndex\<close>, candidates of equal \<open>zIndex\<close> in
  the order of the store.
\<close>

lemma by_zIndex_desc_order:
  "sorted (map (\<lambda>n. - num_or (zIndex n) 0) (by_zIndex_desc ns))"
  "set (by_zIndex_desc ns) = set ns"
  "filter (\<lambda>n. - num_or (zIndex n) 0 = k) (by_zIndex_desc ns) =
     filter (\<lambda>n. - num_or (zIndex n) 0 = k) ns"
  by (simp_all add: by_zIndex_desc_def sort_key_stable)

lemma spread_revert:
  "spread m [F_position q, F_parentNode par, F_extent None] =
     m\<lparr>position := q, parentNode := par, extent := None\<rparr>"
  by (simp add: spread_def)

lemma nodes_revert:
  "dragRef c = Some d \<Longrightarrow> snap_id d = id_node n \<Longrightarrow>
     nodes (store (revert c n)) =
       map (\<lambda>m. if id_node m = id_node n
                then m\<lparr>position := snap_position d, parentNode := snap_parentNode d,
                       extent := None\<rparr>
                else m) (nodes (store c))"
  by (simp add: revert_def nodes_updateNode spread_revert)

text \<open>
  The handler consults the Rule Engine for every node that is not of type vpc, with the
  parent the loop has found; an invalid verdict is alerted and goes to the revert branch.
\<close>

lemma invalid_verdict_alerts:
  assumes "type n \<noteq> Some ''vpc''"
      and "getAbsolutePosition (nodes (store c)) (Some n) = Some a"
      and "findNewParent (nodes (store c)) n (nodeCenter_of n a)
             (potentialParents_drag (nodes (store c)) n) = Some np"
      and "validatePlacement n np = Inr (Invalid msg)"
  shows "onNodeDragStop c n = Some (Alerted (''Invalid Move: '' @ msg), revert c n)"
  using assms by (simp add: onNodeDragStop_def)

lemma findNewParent_returns:
  "(\<forall>p \<in> set ps. \<exists>a. getAbsolutePosition ns (Some p) = Some a) \<Longrightarrow>
     \<exists>np. findNewParent ns n ctr ps = Some np"
  by (induction ps) auto

lemma set_potentialParents_drag: "set (potentialParents_drag ns n) \<subseteq> set ns"
  by (auto simp: potentialParents_drag_def by_zIndex_desc_def)

text \<open>The handlers never meet the TypeError of the rule lookup.\<close>

lemma drag_stop_never_raises: "onNodeDragStop c n \<noteq> Some (Raised e, c')"
proof
  assume r: "onNodeDragStop c n = Some (Raised e, c')"
  then obtain a np where
    hit: "findNewParent (nodes (store c)) n (nodeCenter_of n a)
            (potentialParents_drag (nodes (store c)) n) = Some np"
    and v: "validatePlacement n np = Inl e"
    by (auto simp: onNodeDragStop_def split: if_splits bind_splits sum.splits verdict.splits)
  from v obtain p where np: "np = Some p" and k: "map_of RULES (nodeType n) = None"
    by (auto simp: validatePlacement_def RULES_get_def
        split: option.splits rules_entry.splits if_splits)
  from hit np have "drag_pair n p"
    using findNewParent_hit by blast
  with k show False
    using absent_key_unpaired by blast
qed

text \<open>
  On a store whose parent chains are resolvable, a drag-stop of a node with a resolvable
  chain returns.
\<close>

lemma drag_stop_returns:
  assumes tree: "\<forall>p \<in> set (nodes (store c)). resolvable (nodes (store c)) p"
      and n: "resolvable (nodes (store c)) n"
  shows "\<exists>out c'. onNodeDragStop c n = Some (out, c')"
proof -
  let ?ns = "nodes (store c)"
  obtain a where a: "getAbsolutePosition ?ns (Some n) = Some a"
    using resolvable_returns [OF n] by blast
  have all: "\<forall>p \<in> set (potentialParents_drag ?ns n). \<exists>b. getAbsolutePosition ?ns (Some p) = Some b"
    using tree set_potentialParents_drag resolvable_returns by blast
  then obtain np where np: "findNewParent ?ns n (nodeCenter_of n a) (potentialParents_drag ?ns n) = Some np"
    using findNewParent_returns by blast
  have commit: "\<exists>c'. commit_drag c n a np = Some c'"
  proof (cases np)
    case None
    then show ?thesis by (simp add: commit_drag_def)
  next
    case (Some p)
    with np have "p \<in> set (potentialParents_drag ?ns n)"
      using findNewParent_hit by blast
    with all obtain b where "getAbsolutePosition ?ns (Some p) = Some b"
      by blast
    with Some show ?thesis by (simp add: commit_drag_def)
  qed
  show ?thesis
    using a np commit
    by (auto simp: onNodeDragStop_def split: sum.splits verdict.splits)
qed

text \<open>
  C1 (as amended). Let the dragged node not be of type vpc, let the loop have found the
  candidate \<open>np\<close> and the Rule Engine mark the placement invalid, and let the snapshot be
  the one drag-start took of this node. Then the handler alerts the rule's message, and
  every stored node with that id gets the snapshot's position and parent and an absent
  \<open>extent\<close>. All its other fields, \<open>positionAbsolute\<close> among them, and all other nodes
  stay as the drag-stop found them, and so does the snapshot.
\<close>

theorem invalid_drag_stop_restores_snapshot:
  assumes notvpc: "type n \<noteq> Some ''vpc''"
      and abs: "getAbsolutePosition (nodes (store c)) (Some n) = Some a"
      and hit: "findNewParent (nodes (store c)) n (nodeCenter_of n a)
                  (potentialParents_drag (nodes (store c)) n) = Some np"
      and verdict: "validatePlacement n np = Inr (Invalid msg)"
      and snap: "dragRef c = dragRef (onNodeDragStart c0 n0)"
      and same: "id_node n = id_node n0"
  shows "\<exists>c'. onNodeDragStop c n = Some (Alerted (''Invalid Move: '' @ msg), c') \<and>
           nodes (store c') =
             map (\<lambda>m. if id_node m = id_node n0
                      then m\<lparr>position := position n0, parentNode := parentNode n0,
                             extent := None\<rparr>
                      else m) (nodes (store c)) \<and>
           dragRef c' = dragRef c"
proof -
  have stop: "onNodeDragStop c n = Some (Alerted (''Invalid Move: '' @ msg), revert c n)"
    using notvpc abs hit verdict by (rule invalid_verdict_alerts)
  have d: "dragRef c =
      Some \<lparr>snap_id = id_node n0, snap_position = position n0,
            snap_parentNode = parentNode n0\<rparr>"
    using snap by (simp add: onNodeDragStart_def)
  have "nodes (store (revert c n)) =
             map (\<lambda>m. if id_node m = id_node n0
                      then m\<lparr>position := position n0, parentNode := parentNode n0,
                             extent := None\<rparr>
                      else m) (nodes (store c))"
    using nodes_revert [OF d] same by simp
  moreover have "dragRef (revert c n) = dragRef c"
    by (simp add: revert_def split: option.splits)
  ultimately show ?thesis
    using stop by simp
qed

text \<open>
  The scenario of the spec: the instance is dragged from its subnet to a point of the VPC
  outside both subnets. The drop is rejected, and positions and parents in the store are
  those from before the drag.
\<close>

theorem invalid_drag_stop_restores_snapshot_witness:
  "\<exists>c'. drag (diagram [ex_vpc, ex_subnet1, ex_subnet2, ex_ec2]) ex_ec2 (pt 10 250) (pt 30 290) =
          Some (Alerted ''Invalid Move: Compute resources must be placed inside a Subnet.'', c') \<and>
        map position (nodes (store c')) =
          map position [ex_vpc, ex_subnet1, ex_subnet2, ex_ec2] \<and>
        map parentNode (nodes (store c')) =
          map parentNode [ex_vpc, ex_subnet1, ex_subnet2, ex_ec2]"
proof -
  let ?start = "diagram [ex_vpc, ex_subnet1, ex_subnet2, ex_ec2]"
  let ?c = "mutate (onNodesChange moveNode
                 \<lparr>change_id = id_node ex_ec2, change_position = None,
                  change_positionAbsolute = None, change_dragging = Some False\<rparr>)
         (mutate (onNodesChange moveNode
                    \<lparr>change_id = id_node ex_ec2, change_position = Some (pt 10 250),
                     change_positionAbsolute = Some (pt 30 290), change_dragging = Some True\<rparr>)
            (onNodeDragStart ?start ex_ec2))"
  let ?n = "ex_ec2\<lparr>position := pt 10 250, positionAbsolute := Some (pt 30 290)\<rparr>"
  have notvpc: "type ?n \<noteq> Some ''vpc''"
    by (simp add: ex_defs)
  have ns: "nodes (store ?c) =
      [ex_vpc, ex_subnet1, ex_subnet2,
       ex_ec2\<lparr>position := pt 10 250, positionAbsolute := Some (pt 30 290),
              dragging := Some False\<rparr>]"
    by (simp add: mutate_def costEffect_def onNodesChange_def set_nodes_def moveNode_def
        onNodeDragStart_def ex_defs)
  have abs: "getAbsolutePosition (nodes (store ?c)) (Some ?n) = Some (pt 30 290)"
    by (simp add: getAbsolutePosition_cached)
  have hit: "findNewParent (nodes (store ?c)) ?n (nodeCenter_of ?n (pt 30 290))
       (potentialParents_drag (nodes (store ?c)) ?n) = Some None"
    unfolding ns by (simp add: ex_defs walk_defs)
  have verdict: "validatePlacement ?n None =
      Inr (Invalid ''Compute resources must be placed inside a Subnet.'')"
    by (simp add: rule_defs ex_defs)
  have snap: "dragRef ?c = dragRef (onNodeDragStart ?start ex_ec2)"
    by (simp add: mutate_def costEffect_def)
  have same: "id_node ?n = id_node ex_ec2"
    by simp
  obtain c' where
    stop: "onNodeDragStop ?c ?n =
      Some (Alerted ''Invalid Move: Compute resources must be placed inside a Subnet.'', c')"
    and restored: "nodes (store c') =
      map (\<lambda>m. if id_node m = id_node ex_ec2
               then m\<lparr>position := position ex_ec2, parentNode := parentNode ex_ec2,
                      extent := None\<rparr>
               else m) (nodes (store ?c))"
    using invalid_drag_stop_restores_snapshot [OF notvpc abs hit verdict snap same]
    by auto
  have gesture: "drag ?start ex_ec2 (pt 10 250) (pt 30 290) = onNodeDragStop ?c ?n"
    by (simp add: drag_def)
  have "map position (nodes (store c')) =
          map position [ex_vpc, ex_subnet1, ex_subnet2, ex_ec2]"
    "map parentNode (nodes (store c')) =
          map parentNode [ex_vpc, ex_subnet1, ex_subnet2, ex_ec2]"
    unfolding restored ns by (simp_all add: ex_defs)
  then show ?thesis
    using stop gesture by simp
qed

text \<open>
  C1, counterexample. The same gesture, seen in the store: after the revert the instance
  has its position and parent back, and it still carries the \<open>positionAbsolute\<close> and the
  \<open>dragging\<close> flag that the drag wrote, so it is not the node from before the drag.
\<close>

theorem revert_keeps_positionAbsolute:
  "result_nodes
     (drag (diagram [ex_vpc, ex_subnet1, ex_subnet2, ex_ec2]) ex_ec2 (pt 10 250) (pt 30 290)) =
     Some (Alerted ''Invalid Move: Compute resources must be placed inside a Subnet.'',
           [ex_vpc, ex_subnet1, ex_subnet2,
            ex_ec2\<lparr>positionAbsolute := Some (pt 30 290), dragging := Some False\<rparr>]) \<and>
   positionAbsolute ex_ec2 = None \<and>
   ex_ec2\<lparr>positionAbsolute := Some (pt 30 290), dragging := Some False\<rparr> \<noteq> ex_ec2"
  by (simp add: onNodeDragStop_def rule_defs ex_defs eval_defs)

text \<open>
  C9. Let the dragged node not be of type vpc, let the loop have found the candidate \<open>np\<close>
  and the Rule Engine mark the placement invalid. Then the handler alerts the rule's
  message. Without a snapshot, or with the snapshot of another node, the canvas state
  after the call is the one before it, store included, so the node stays where the drag
  put it. With a snapshot of the dragged node, the stored nodes with its id get the
  snapshot's position and parent.
\<close>

theorem invalid_drag_stop_without_snapshot:
  assumes notvpc: "type n \<noteq> Some ''vpc''"
      and abs: "getAbsolutePosition (nodes (store c)) (Some n) = Some a"
      and hit: "findNewParent (nodes (store c)) n (nodeCenter_of n a)
                  (potentialParents_drag (nodes (store c)) n) = Some np"
      and verdict: "validatePlacement n np = Inr (Invalid msg)"
  shows "\<exists>c'. onNodeDragStop c n = Some (Alerted (''Invalid Move: '' @ msg), c') \<and>
           (dragRef c = None \<longrightarrow> c' = c) \<and>
           (\<forall>d. dragRef c = Some d \<and> snap_id d \<noteq> id_node n \<longrightarrow> c' = c) \<and>
           (\<forall>d. dragRef c = Some d \<and> snap_id d = id_node n \<longrightarrow>
              nodes (store c') =
                map (\<lambda>m. if id_node m = id_node n
                         then m\<lparr>position := snap_position d,
                                parentNode := snap_parentNode d, extent := None\<rparr>
                         else m) (nodes (store c)))"
proof -
  have stop: "onNodeDragStop c n = Some (Alerted (''Invalid Move: '' @ msg), revert c n)"
    using notvpc abs hit verdict by (rule invalid_verdict_alerts)
  have "dragRef c = None \<Longrightarrow> revert c n = c"
    by (simp add: revert_def)
  moreover have "dragRef c = Some d \<Longrightarrow> snap_id d \<noteq> id_node n \<Longrightarrow> revert c n = c" for d
    by (simp add: revert_def)
  ultimately show ?thesis
    using stop nodes_revert by auto
qed

text \<open>
  The moved instance is dropped outside the subnets while the ref holds no snapshot, and
  while it holds the snapshot of the VPC: the alert is shown and the canvas state is
  untouched, the instance still at (10, 250).
\<close>

theorem invalid_drag_stop_without_snapshot_witness:
  "onNodeDragStop
     (diagram [ex_vpc, ex_subnet1, ex_subnet2,
               ex_ec2\<lparr>position := pt 10 250, positionAbsolute := Some (pt 30 290)\<rparr>])
     (ex_ec2\<lparr>position := pt 10 250, positionAbsolute := Some (pt 30 290)\<rparr>) =
   Some (Alerted ''Invalid Move: Compute resources must be placed inside a Subnet.'',
         diagram [ex_vpc, ex_subnet1, ex_subnet2,
                  ex_ec2\<lparr>position := pt 10 250, positionAbsolute := Some (pt 30 290)\<rparr>]) \<and>
   onNodeDragStop
     (onNodeDragStart
        (diagram [ex_vpc, ex_subnet1, ex_subnet2,
                  ex_ec2\<lparr>position := pt 10 250, positionAbsolute := Some (pt 30 290)\<rparr>])
        ex_vpc)
     (ex_ec2\<lparr>position := pt 10 250, positionAbsolute := Some (pt 30 290)\<rparr>) =
   Some (Alerted ''Invalid Move: Compute resources must be placed inside a Subnet.'',
         onNodeDragStart
           (diagram [ex_vpc, ex_subnet1, ex_subnet2,
                     ex_ec2\<lparr>position := pt 10 250, positionAbsolute := Some (pt 30 290)\<rparr>])
           ex_vpc)"
proof -
  let ?n = "ex_ec2\<lparr>position := pt 10 250, positionAbsolute := Some (pt 30 290)\<rparr>"
  let ?c = "diagram [ex_vpc, ex_subnet1, ex_subnet2, ?n]"
  let ?other = "onNodeDragStart ?c ex_vpc"
  have notvpc: "type ?n \<noteq> Some ''vpc''"
    by (simp add: ex_defs)
  have abs: "getAbsolutePosition (nodes (store ?c)) (Some ?n) = Some (pt 30 290)"
    by (simp add: getAbsolutePosition_cached)
  have hit: "findNewParent (nodes (store ?c)) ?n (nodeCenter_of ?n (pt 30 290))
       (potentialParents_drag (nodes (store ?c)) ?n) = Some None"
    by (simp add: ex_defs walk_defs)
  have verdict: "validatePlacement ?n None =
      Inr (Invalid ''Compute resources must be placed inside a Subnet.'')"
    by (simp add: rule_defs ex_defs)
  have none: "dragRef ?c = None"
    by (simp add: diagram_def)
  have st: "store ?other = store ?c"
    by (simp add: onNodeDragStart_def)
  have other: "\<exists>d. dragRef ?other = Some d \<and> snap_id d \<noteq> id_node ?n"
    by (simp add: onNodeDragStart_def ex_defs)
  have first: "onNodeDragStop ?c ?n =
      Some (Alerted ''Invalid Move: Compute resources must be placed inside a Subnet.'', ?c)"
    using invalid_drag_stop_without_snapshot [OF notvpc abs hit verdict] none by auto
  have second: "onNodeDragStop ?other ?n =
      Some (Alerted ''Invalid Move: Compute resources must be placed inside a Subnet.'', ?other)"
    using invalid_drag_stop_without_snapshot
      [of ?n ?other "pt 30 290" None, OF notvpc _ _ verdict] abs hit other
    by (auto simp: st)
  show ?thesis
    using first second by simp
qed

text \<open>
  C8 (as amended). The drag handlers never write a VPC node: drag-start only takes the
  snapshot and drag-stop returns at once, whatever the drag did. The store after the
  gesture is therefore the store as the position changes of the drag left it.
\<close>

theorem vpc_drag_keeps_moved_position:
  assumes "type n = Some ''vpc''"
  shows "\<exists>c'. onNodeDragStop
                (mutate (onNodesChange applyNodeChanges changes) (onNodeDragStart c n0)) n =
              Some (Ignored, c') \<and>
          store c' = onNodesChange applyNodeChanges changes (store c)"
  using assms
  by (simp add: onNodeDragStop_def mutate_def costEffect_def onNodeDragStart_def)

theorem vpc_drag_keeps_moved_position_witness:
  "\<exists>c'. onNodeDragStop
          (mutate (onNodesChange moveNode
                     \<lparr>change_id = ''vpc-1'', change_position = Some (pt 50 60),
                      change_positionAbsolute = Some (pt 50 60), change_dragging = Some True\<rparr>)
             (onNodeDragStart (diagram [ex_vpc, ex_subnet1, ex_subnet2, ex_ec2]) ex_vpc))
          (ex_vpc\<lparr>position := pt 50 60, positionAbsolute := Some (pt 50 60)\<rparr>) =
          Some (Ignored, c') \<and>
        store c' =
          onNodesChange moveNode
            \<lparr>change_id = ''vpc-1'', change_position = Some (pt 50 60),
             change_positionAbsolute = Some (pt 50 60), change_dragging = Some True\<rparr>
            (store (diagram [ex_vpc, ex_subnet1, ex_subnet2, ex_ec2]))"
proof -
  have t: "type (ex_vpc\<lparr>position := pt 50 60, positionAbsolute := Some (pt 50 60)\<rparr>) =
      Some ''vpc''"
    by (simp add: ex_defs)
  show ?thesis
    using vpc_drag_keeps_moved_position
      [OF t, of moveNode
         "\<lparr>change_id = ''vpc-1'', change_position = Some (pt 50 60),
           change_positionAbsolute = Some (pt 50 60), change_dragging = Some True\<rparr>"
         "diagram [ex_vpc, ex_subnet1, ex_subnet2, ex_ec2]" ex_vpc]
    by simp
qed

text \<open>
  C8, counterexample. A complete drag of the VPC from the origin to (50, 60): the
  gesture ends without an alert and the stored VPC is at (50, 60).
\<close>

theorem vpc_drag_moves_vpc:
  "result_nodes
     (drag (diagram [ex_vpc, ex_subnet1, ex_subnet2, ex_ec2]) ex_vpc (pt 50 60) (pt 50 60)) =
     Some (Ignored,
           [ex_vpc\<lparr>position := pt 50 60, positionAbsolute := Some (pt 50 60),
                   dragging := Some False\<rparr>,
            ex_subnet1, ex_subnet2, ex_ec2]) \<and>
   position ex_vpc = pt 0 0 \<and> pt 0 0 \<noteq> pt 50 60"
  by (simp add: onNodeDragStop_def ex_defs eval_defs)




section \<open>Palette drop\<close>

lemma set_potentialParents_drop: "set (potentialParents_drop ns) \<subseteq> set ns"
  by (auto simp: potentialParents_drop_def by_zIndex_desc_def)

lemma potentialParents_drop_containers:
  "p \<in> set (potentialParents_drop ns) \<Longrightarrow> is_container p"
  by (auto simp: potentialParents_drop_def by_zIndex_desc_def)

text \<open>
  The loop attaches the first candidate that passes the test of its iteration, at the
  drop point relative to that candidate, and leaves the node as created when none does.
\<close>

lemma attachParent_miss:
  "(\<forall>p \<in> set ps. \<exists>a. getAbsolutePosition ns (Some p) = Some a) \<Longrightarrow>
   find (drop_hit ns ty mp) ps = None \<Longrightarrow>
     attachParent ns ty mp nn0 ps = Some nn0"
  by (induction ps) (auto simp: drop_hit_def split: if_splits)

lemma attachParent_hit:
  "(\<forall>p \<in> set ps. \<exists>a. getAbsolutePosition ns (Some p) = Some a) \<Longrightarrow>
   find (drop_hit ns ty mp) ps = Some p \<Longrightarrow>
   getAbsolutePosition ns (Some p) = Some pAbs \<Longrightarrow>
     attachParent ns ty mp nn0 ps =
       Some (nn0\<lparr>parentNode := Some (id_node p), extent := None,
                  position := xy_sub mp pAbs\<rparr>)"
  by (induction ps) (auto simp: drop_hit_def split: if_splits)

lemma find_by_id:
  "distinct (map id_node ns) \<Longrightarrow> p \<in> set ns \<Longrightarrow>
     find (\<lambda>m. id_node m = id_node p) ns = Some p"
  by (induction ns) (auto simp: image_iff)

lemma drop_parent_attached:
  assumes "distinct (map id_node ns)" and "p \<in> set ns" and "id_node p \<noteq> []"
      and "parentNode nn = Some (id_node p)"
  shows "drop_parent ns nn = Some p"
  using assms find_by_id [of ns p]
  by (simp add: drop_parent_def truthy_def find_parent_def)

lemma drop_parent_none: "parentNode nn = None \<Longrightarrow> drop_parent ns nn = None"
  by (simp add: drop_parent_def truthy_def)

lemma s3_alone_valid: "validatePlacement (newNode_of ''s3'' mp stamp) None = Inr Valid"
  by (simp add: rule_defs newNode_of_def defaultData_def isContainer_def)

lemma ec2_alone_invalid:
  "validatePlacement (newNode_of ''ec2'' mp stamp) None =
     Inr (Invalid ''Compute resources must be placed inside a Subnet.'')"
  by (simp add: rule_defs newNode_of_def defaultData_def isContainer_def)

text \<open>The rule key of a node that \<^verbatim>\<open>onDrop\<close> creates is in the table.\<close>

lemma drop_key_in_table: "map_of RULES (nodeType (newNode_of ty mp stamp)) \<noteq> None"
  by (simp add: nodeType_def type_or_def newNode_of_def defaultData_def isContainer_def
      RULES_def)

lemma attachParent_key:
  "attachParent ns ty mp nn0 ps = Some nn \<Longrightarrow> nodeType nn = nodeType nn0"
  by (induction ps) (auto simp: nodeType_def type_or_def split: option.splits if_splits)

lemma drop_never_raises: "onDrop c ty mp stamp \<noteq> Some (Raised e, c')"
proof
  assume "onDrop c ty mp stamp = Some (Raised e, c')"
  then obtain nn where
    nn: "attachParent (nodes (store c)) ty mp (newNode_of ty mp stamp)
           (potentialParents_drop (nodes (store c))) = Some nn"
    and v: "validatePlacement nn (drop_parent (nodes (store c)) nn) = Inl e"
    by (auto simp: onDrop_def split: if_splits bind_splits sum.splits verdict.splits)
  from v have "map_of RULES (nodeType nn) = None"
    by (auto simp: validatePlacement_def RULES_get_def
        split: option.splits rules_entry.splits if_splits)
  then show False
    using attachParent_key [OF nn] drop_key_in_table by simp
qed

lemma onDrop_result:
  assumes "ty \<noteq> []"
      and "attachParent (nodes (store c)) ty mp (newNode_of ty mp stamp)
             (potentialParents_drop (nodes (store c))) = Some nn"
  shows "\<exists>out c'. onDrop c ty mp stamp = Some (out, c') \<and>
           (if validatePlacement nn (drop_parent (nodes (store c)) nn) = Inr Valid
            then out = Done \<and> nodes (store c') = nodes (store c) @ [nn]
            else out \<noteq> Done \<and> c' = c)"
  using assms
  by (auto simp: onDrop_def addNode_def set_nodes_def split: sum.splits verdict.splits)

text \<open>
  C5. A palette drop carries a non-empty type. On a store with resolvable parent chains
  and distinct, non-empty ids the handler returns. The candidate parent is the first
  container, in stacking order, whose rectangle contains the drop point and that pairs
  with the dropped type, or none. The created node, attached to that parent at the
  relative drop point, is appended to the store exactly when the placement check of the
  node and that parent passes; otherwise the canvas state is unchanged. With no container
  under the drop point, a drop of type s3 appends the node as created, without parent,
  and a drop of type ec2 changes nothing.
\<close>

theorem palette_drop_adds_iff_valid:
  assumes ty: "ty \<noteq> []"
      and tree: "\<forall>p \<in> set (nodes (store c)). resolvable (nodes (store c)) p"
      and ids: "distinct (map id_node (nodes (store c)))"
      and named: "[] \<notin> set (map id_node (nodes (store c)))"
  shows "\<exists>out c'. onDrop c ty mousePos stamp = Some (out, c') \<and>
     (case find (drop_hit (nodes (store c)) ty mousePos)
             (potentialParents_drop (nodes (store c))) of
        None \<Rightarrow>
          (if validatePlacement (newNode_of ty mousePos stamp) None = Inr Valid
           then out = Done \<and>
                nodes (store c') = nodes (store c) @ [newNode_of ty mousePos stamp]
           else out \<noteq> Done \<and> c' = c)
      | Some p \<Rightarrow>
          (\<exists>pAbs. getAbsolutePosition (nodes (store c)) (Some p) = Some pAbs \<and>
             (if validatePlacement
                   ((newNode_of ty mousePos stamp)
                      \<lparr>parentNode := Some (id_node p), position := xy_sub mousePos pAbs\<rparr>)
                   (Some p) = Inr Valid
              then out = Done \<and>
                   nodes (store c') =
                     nodes (store c) @
                       [(newNode_of ty mousePos stamp)
                          \<lparr>parentNode := Some (id_node p),
                           position := xy_sub mousePos pAbs\<rparr>]
              else out \<noteq> Done \<and> c' = c))) \<and>
     ((\<forall>p \<in> set (nodes (store c)). is_container p \<longrightarrow>
          (\<forall>pAbs. getAbsolutePosition (nodes (store c)) (Some p) = Some pAbs \<longrightarrow>
             \<not> isInside mousePos pAbs (num_or (width p) (num_or (style_width p) 200))
                  (num_or (height p) (num_or (style_height p) 150)))) \<longrightarrow>
        (ty = ''s3'' \<longrightarrow>
           out = Done \<and> parentNode (newNode_of ty mousePos stamp) = None \<and>
           nodes (store c') = nodes (store c) @ [newNode_of ty mousePos stamp]) \<and>
        (ty = ''ec2'' \<longrightarrow> out \<noteq> Done \<and> c' = c))"
proof -
  let ?ns = "nodes (store c)"
  let ?ps = "potentialParents_drop ?ns"
  let ?fresh = "newNode_of ty mousePos stamp"
  have all: "\<forall>p \<in> set ?ps. \<exists>a. getAbsolutePosition ?ns (Some p) = Some a"
    using tree set_potentialParents_drop resolvable_returns by blast
  have empty: "find (drop_hit ?ns ty mousePos) ?ps = None"
    if free: "\<forall>p \<in> set ?ns. is_container p \<longrightarrow>
          (\<forall>pAbs. getAbsolutePosition ?ns (Some p) = Some pAbs \<longrightarrow>
             \<not> isInside mousePos pAbs (num_or (width p) (num_or (style_width p) 200))
                  (num_or (height p) (num_or (style_height p) 150)))"
  proof -
    have "\<not> drop_hit ?ns ty mousePos p" if "p \<in> set ?ps" for p
      using that free set_potentialParents_drop [of ?ns] potentialParents_drop_containers
      by (auto simp: drop_hit_def split: option.splits)
    then show ?thesis
      by (simp add: find_None_iff)
  qed
  show ?thesis
  proof (cases "find (drop_hit ?ns ty mousePos) ?ps")
    case None
    have att: "attachParent ?ns ty mousePos ?fresh ?ps = Some ?fresh"
      using all None by (rule attachParent_miss)
    have par: "drop_parent ?ns ?fresh = None"
      by (simp add: drop_parent_none newNode_of_def)
    obtain out c' where res: "onDrop c ty mousePos stamp = Some (out, c')"
      and iff: "if validatePlacement ?fresh None = Inr Valid
            then out = Done \<and> nodes (store c') = ?ns @ [?fresh]
            else out \<noteq> Done \<and> c' = c"
      using onDrop_result [OF ty att] by (auto simp: par)
    have s3: "out = Done \<and> parentNode ?fresh = None \<and> nodes (store c') = ?ns @ [?fresh]"
      if "ty = ''s3''"
      using iff that s3_alone_valid [of mousePos stamp] by (simp add: newNode_of_def)
    have ec2: "out \<noteq> Done \<and> c' = c" if "ty = ''ec2''"
      using iff that ec2_alone_invalid [of mousePos stamp] by simp
    show ?thesis
      apply (rule exI [of _ out], rule exI [of _ c'])
      using res iff s3 ec2 by (simp add: None)
  next
    case (Some p)
    then have p: "p \<in> set ?ps"
      by (auto simp: find_Some_iff in_set_conv_nth)
    then obtain pAbs where pAbs: "getAbsolutePosition ?ns (Some p) = Some pAbs"
      using all by blast
    let ?attached = "?fresh\<lparr>parentNode := Some (id_node p), position := xy_sub mousePos pAbs\<rparr>"
    have "attachParent ?ns ty mousePos ?fresh ?ps =
        Some (?fresh\<lparr>parentNode := Some (id_node p), extent := None,
                   position := xy_sub mousePos pAbs\<rparr>)"
      using all Some pAbs by (rule attachParent_hit)
    then have att: "attachParent ?ns ty mousePos ?fresh ?ps = Some ?attached"
      by (simp add: newNode_of_def)
    have pin: "p \<in> set ?ns"
      using p set_potentialParents_drop by blast
    then have "id_node p \<in> set (map id_node ?ns)"
      by simp
    then have "id_node p \<noteq> []"
      using named by metis
    then have par: "drop_parent ?ns ?attached = Some p"
      using drop_parent_attached [OF ids pin] by simp
    obtain out c' where res: "onDrop c ty mousePos stamp = Some (out, c')"
      and iff: "if validatePlacement ?attached (Some p) = Inr Valid
            then out = Done \<and> nodes (store c') = ?ns @ [?attached]
            else out \<noteq> Done \<and> c' = c"
      using onDrop_result [OF ty att] by (auto simp: par)
    have notfree: "\<not> (\<forall>q \<in> set ?ns. is_container q \<longrightarrow>
          (\<forall>qAbs. getAbsolutePosition ?ns (Some q) = Some qAbs \<longrightarrow>
             \<not> isInside mousePos qAbs (num_or (width q) (num_or (style_width q) 200))
                  (num_or (height q) (num_or (style_height q) 150))))"
      using empty Some by auto
    show ?thesis
      apply (rule exI [of _ out], rule exI [of _ c'])
      apply (intro conjI)
      subgoal by (rule res)
      subgoal using pAbs iff by (simp add: Some)
      subgoal using notfree by blast
      done
  qed
qed

text \<open>
  An instance dropped at (100, 100), inside the first subnet: it is added as a child of
  that subnet at (80, 60).
\<close>

theorem palette_drop_adds_iff_valid_witness:
  "\<exists>c'. onDrop (diagram [ex_vpc, ex_subnet1, ex_subnet2, ex_ec2]) ''ec2'' (pt 100 100)
          ''1700000000000'' = Some (Done, c') \<and>
        nodes (store c') =
          [ex_vpc, ex_subnet1, ex_subnet2, ex_ec2,
           (newNode_of ''ec2'' (pt 100 100) ''1700000000000'')
             \<lparr>parentNode := Some ''subnet-1'', position := pt 80 60\<rparr>]"
proof -
  let ?c = "diagram [ex_vpc, ex_subnet1, ex_subnet2, ex_ec2]"
  have ns: "nodes (store ?c) = [ex_vpc, ex_subnet1, ex_subnet2, ex_ec2]"
    by (simp add: diagram_def)
  have ty: "''ec2'' \<noteq> []"
    by simp
  have tree: "\<forall>p \<in> set (nodes (store ?c)). resolvable (nodes (store ?c)) p"
    using ex_chain by (simp add: ns)
  have ids: "distinct (map id_node (nodes (store ?c)))"
    by (simp add: ex_defs)
  have named: "[] \<notin> set (map id_node (nodes (store ?c)))"
    by (simp add: ex_defs)
  have hit: "find (drop_hit (nodes (store ?c)) ''ec2'' (pt 100 100))
      (potentialParents_drop (nodes (store ?c))) = Some ex_subnet1"
    by (simp add: ex_defs walk_defs potentialParents_drop_def drop_hit_def drop_pair_def
        isContainer_def)
  have pAbs: "getAbsolutePosition (nodes (store ?c)) (Some ex_subnet1) = Some (pt 20 40)"
    by (simp add: ex_defs walk_defs)
  have ok: "validatePlacement
      ((newNode_of ''ec2'' (pt 100 100) ''1700000000000'')
         \<lparr>parentNode := Some ''subnet-1'', position := pt 80 60\<rparr>)
      (Some ex_subnet1) = Inr Valid"
    by (simp add: rule_defs newNode_of_def defaultData_def isContainer_def ex_defs)
  have i: "id_node ex_subnet1 = ''subnet-1''" "xy_sub (pt 100 100) (pt 20 40) = pt 80 60"
    by (simp_all add: ex_defs xy_sub_def)
  obtain out c' where
    res: "onDrop ?c ''ec2'' (pt 100 100) ''1700000000000'' = Some (out, c')"
    and hitcase:
      "case find (drop_hit (nodes (store ?c)) ''ec2'' (pt 100 100))
              (potentialParents_drop (nodes (store ?c))) of
         None \<Rightarrow>
           (if validatePlacement (newNode_of ''ec2'' (pt 100 100) ''1700000000000'') None =
                 Inr Valid
            then out = Done \<and>
                 nodes (store c') =
                   nodes (store ?c) @ [newNode_of ''ec2'' (pt 100 100) ''1700000000000'']
            else out \<noteq> Done \<and> c' = ?c)
       | Some p \<Rightarrow>
           (\<exists>pAbs. getAbsolutePosition (nodes (store ?c)) (Some p) = Some pAbs \<and>
              (if validatePlacement
                    ((newNode_of ''ec2'' (pt 100 100) ''1700000000000'')
                       \<lparr>parentNode := Some (id_node p),
                        position := xy_sub (pt 100 100) pAbs\<rparr>)
                    (Some p) = Inr Valid
               then out = Done \<and>
                    nodes (store c') =
                      nodes (store ?c) @
                        [(newNode_of ''ec2'' (pt 100 100) ''1700000000000'')
                           \<lparr>parentNode := Some (id_node p),
                            position := xy_sub (pt 100 100) pAbs\<rparr>]
               else out \<noteq> Done \<and> c' = ?c))"
    using palette_drop_adds_iff_valid
      [OF ty tree ids named, of "pt 100 100" "''1700000000000''"]
    by blast
  have "out = Done \<and>
      nodes (store c') =
        nodes (store ?c) @
          [(newNode_of ''ec2'' (pt 100 100) ''1700000000000'')
             \<lparr>parentNode := Some ''subnet-1'', position := pt 80 60\<rparr>]"
    using hitcase ok unfolding hit by (simp add: pAbs i)
  then show ?thesis
    using res by (simp add: ns)
qed

text \<open>The two scenarios of the spec on the example diagram, the drop point at (600, 10).\<close>

lemma drop_on_empty_canvas:
  "result_nodes (onDrop (diagram [ex_vpc, ex_subnet1, ex_subnet2, ex_ec2]) ''s3'' (pt 600 10)
     ''1700000000000'') =
     Some (Done, [ex_vpc, ex_subnet1, ex_subnet2, ex_ec2,
                  newNode_of ''s3'' (pt 600 10) ''1700000000000''])"
  "onDrop (diagram [ex_vpc, ex_subnet1, ex_subnet2, ex_ec2]) ''ec2'' (pt 600 10)
     ''1700000000000'' =
     Some (Alerted
             ''Cannot create resource here: Compute resources must be placed inside a Subnet.'',
           diagram [ex_vpc, ex_subnet1, ex_subnet2, ex_ec2])"
  by (simp_all add: onDrop_def result_nodes_def addNode_def set_nodes_def ex_defs walk_defs
      potentialParents_drop_def drop_pair_def isContainer_def drop_parent_def rule_defs
      newNode_of_def defaultData_def)

section \<open>Cost estimation\<close>

lemma estimateSettles_frame:
  "costTimer (estimateSettles c i r) = costTimer c"
  "nodes (store (estimateSettles c i r)) = nodes (store c)"
  by (auto simp: estimateSettles_def setCosts_def split: option.splits)

lemma settles_frame:
  "costTimer (settles c evs) = costTimer c \<and> nodes (store (settles c evs)) = nodes (store c)"
  by (induction evs arbitrary: c) (auto simp: settles_def estimateSettles_frame)

lemma settles_idle: "inflight c = [] \<Longrightarrow> settles c evs = c"
  by (induction evs arbitrary: c) (auto simp: settles_def estimateSettles_def)

text \<open>A response that arrives for a call in flight replaces the costs on display.\<close>

lemma response_sets_costs:
  "i < length (inflight c) \<Longrightarrow>
     totalCost (store (estimateSettles c i (Some (t, b)))) = t \<and>
     costBreakdown (store (estimateSettles c i (Some (t, b)))) = b"
  by (simp add: estimateSettles_def setCosts_def)

text \<open>
  C6 (as amended). When a change empties the node list, that step leaves the costs on
  display as they are and sets the timeout anew, closed over the empty list. While the
  timeout is pending, calls in flight may settle: they leave the timeout pending, and
  with no call in flight the costs keep their values. When the timeout fires, whatever
  has settled before, the total is reset to zero and the breakdown to empty, and no
  request is sent.
\<close>

theorem emptied_nodes_reset_when_timer_fires:
  assumes empty: "applyNodeChanges changes (nodes (store c)) = []"
      and refs: "refs_ok (store c)"
      and rendered: "effect_ref c = Some (nodes_ref (store c))"
      and step: "c1 = mutate (onNodesChange applyNodeChanges changes) c"
  shows "nodes (store c1) = [] \<and>
         totalCost (store c1) = totalCost (store c) \<and>
         costBreakdown (store c1) = costBreakdown (store c) \<and>
         costTimer c1 = Some [] \<and>
         costTimer (settles c1 evs) = Some [] \<and>
         (inflight c = [] \<longrightarrow>
            totalCost (store (settles c1 evs)) = totalCost (store c) \<and>
            costBreakdown (store (settles c1 evs)) = costBreakdown (store c)) \<and>
         totalCost (store (timeoutFires (settles c1 evs))) = 0 \<and>
         costBreakdown (store (timeoutFires (settles c1 evs))) = Map.empty \<and>
         inflight (timeoutFires (settles c1 evs)) = inflight (settles c1 evs)"
proof -
  have now: "nodes (store c1) = []" "totalCost (store c1) = totalCost (store c)"
    "costBreakdown (store c1) = costBreakdown (store c)" "costTimer c1 = Some []"
    "inflight c1 = inflight c"
    using empty refs rendered
    by (simp_all add: step mutate_def onNodesChange_def set_nodes_def costEffect_def
        refs_ok_def)
  have pending: "costTimer (settles c1 evs) = Some []"
    using settles_frame [of c1 evs] now by simp
  have idle: "settles c1 evs = c1" if "inflight c = []"
    using that now by (simp add: settles_idle)
  have fired: "totalCost (store (timeoutFires (settles c1 evs))) = 0"
    "costBreakdown (store (timeoutFires (settles c1 evs))) = Map.empty"
    "inflight (timeoutFires (settles c1 evs)) = inflight (settles c1 evs)"
    using pending by (simp_all add: timeoutFires_def setCosts_def)
  show ?thesis
    using now pending idle fired by simp
qed

text \<open>
  The only node of the priced diagram is removed while no call is in flight. Whatever
  settles before the timeout fires, the timeout stays pending over the empty list and
  the total stays 23; the timeout resets it.
\<close>

theorem emptied_nodes_reset_when_timer_fires_witness:
  "costTimer (settles (mutate (onNodesChange removeNode ''s3-1'') priced) [(0, None)]) =
     Some [] \<and>
   totalCost (store (settles (mutate (onNodesChange removeNode ''s3-1'') priced) [(0, None)])) =
     23 \<and>
   totalCost
     (store (timeoutFires
        (settles (mutate (onNodesChange removeNode ''s3-1'') priced) [(0, None)]))) = 0 \<and>
   costBreakdown
     (store (timeoutFires
        (settles (mutate (onNodesChange removeNode ''s3-1'') priced) [(0, None)]))) =
     Map.empty"
proof -
  have empty: "removeNode ''s3-1'' (nodes (store priced)) = []"
    by (simp add: removeNode_def setCosts_def ex_defs)
  have refs: "refs_ok (store priced)"
    by (simp add: refs_ok_def setCosts_def ex_defs)
  have rendered: "effect_ref priced = Some (nodes_ref (store priced))"
    by (simp add: setCosts_def ex_defs)
  have idle: "inflight priced = []"
    by (simp add: ex_defs)
  have was: "totalCost (store priced) = 23"
    by (simp add: setCosts_def ex_defs)
  show ?thesis
    using emptied_nodes_reset_when_timer_fires
      [of removeNode "''s3-1''" priced _ "[(0, None)]", OF empty refs rendered refl]
      idle was
    by simp
qed

text \<open>
  C6, counterexample. Removing the only node empties the list; after the change and the
  render it causes, the total on display is still 23 and the bucket still has its entry.
\<close>

theorem emptied_nodes_keep_costs:
  "nodes (store (mutate (onNodesChange removeNode ''s3-1'') priced)) = [] \<and>
   totalCost (store priced) = 23 \<and>
   totalCost (store (mutate (onNodesChange removeNode ''s3-1'') priced)) = 23 \<and>
   costBreakdown (store (mutate (onNodesChange removeNode ''s3-1'') priced)) ''s3-1'' = Some 23"
  by (simp add: mutate_def onNodesChange_def set_nodes_def costEffect_def removeNode_def
      setCosts_def ex_defs)

end

